theory Spec2Isabelle
  imports Main "HOL-Library.Log_Nat"
begin

section \<open>Python numbers: unbounded integers and IEEE doubles\<close>

text \<open>
  The negotiation policies multiply Python integers by floating-point literals and
  truncate the product with \<open>int()\<close>.  A finite double is kept as a mantissa and a
  binary exponent, \<open>(m, e)\<close> standing for \<open>m * 2^e\<close>; every operation rounds to 53
  significant bits, ties to even, as the hardware does.  A product that leaves the
  double range is an infinity, and \<open>float(x)\<close> or \<open>int(inf)\<close> raise OverflowError.
  The operands met here are integers and literals between 0.65 and 1.5, so that no
  product is a NaN or falls into the subnormal range.
\<close>

datatype py_error = OverflowError | KeyError

type_synonym dbl = "int \<times> int"

datatype pyfloat = Finite int int | PosInf | NegInf

text \<open>\<open>rne p s\<close>: the quotient of \<open>p \<ge> 0\<close> by \<open>2^s\<close>, rounded to nearest, ties to even.\<close>

definition rne :: "int \<Rightarrow> nat \<Rightarrow> int" where
  "rne p s =
     (let q = p div 2 ^ s; r = p mod 2 ^ s
      in if 2 ^ s < 2 * r \<or> (2 * r = 2 ^ s \<and> odd q) then q + 1 else q)"

text \<open>\<open>round53 p\<close>: \<open>p \<ge> 0\<close> cut to at most 53 significant bits; the result \<open>(m, s)\<close> stands for \<open>m * 2^s\<close>.\<close>

definition round53 :: "int \<Rightarrow> int \<times> nat" where
  "round53 p =
     (if bitlen p \<le> 53 then (p, 0)
      else let s = nat (bitlen p - 53) in (rne p s, s))"

text \<open>The largest finite double is below \<open>2^1024\<close>.\<close>

definition dbl_overflow :: "int \<Rightarrow> int \<Rightarrow> bool" where
  "dbl_overflow m e = (0 \<le> e \<and> 2 ^ 1024 \<le> m * 2 ^ nat e)"

text \<open>\<open>float(x)\<close> for a Python integer: correctly rounded, OverflowError when too large.\<close>

definition float_of_int :: "int \<Rightarrow> py_error + dbl" where
  "float_of_int x =
     (let (m, s) = round53 \<bar>x\<bar>
      in if dbl_overflow m (int s) then Inl OverflowError
         else Inr (sgn x * m, int s))"

text \<open>The product of two finite doubles: the exact product, rounded once.\<close>

fun fmul :: "dbl \<Rightarrow> dbl \<Rightarrow> pyfloat" where
  "fmul (m1, e1) (m2, e2) =
     (let p = m1 * m2; (m, s) = round53 \<bar>p\<bar>; e = e1 + e2 + int s
      in if dbl_overflow m e then (if 0 < p then PosInf else NegInf)
         else Finite (sgn p * m) e)"

text \<open>\<open>int(f)\<close>: truncation towards zero; an infinity raises OverflowError.\<close>

fun int_of_float :: "pyfloat \<Rightarrow> py_error + int" where
  "int_of_float (Finite m e) =
     Inr (if 0 \<le> e then m * 2 ^ nat e else sgn m * (\<bar>m\<bar> div 2 ^ nat (- e)))"
| "int_of_float PosInf = Inl OverflowError"
| "int_of_float NegInf = Inl OverflowError"

text \<open>\<open>a > f\<close> for an integer \<open>a\<close> and a double \<open>f\<close>: Python compares the exact values.\<close>

fun int_gt_float :: "int \<Rightarrow> pyfloat \<Rightarrow> bool" where
  "int_gt_float a (Finite m e) =
     (if 0 \<le> e then m * 2 ^ nat e < a else m < a * 2 ^ nat (- e))"
| "int_gt_float a PosInf = False"
| "int_gt_float a NegInf = True"

text \<open>\<open>x * c\<close> for an integer \<open>x\<close> and a double literal \<open>c\<close>: \<open>x\<close> is converted first.\<close>

definition int_times :: "int \<Rightarrow> dbl \<Rightarrow> py_error + pyfloat" where
  "int_times x c = (case float_of_int x of Inl err \<Rightarrow> Inl err | Inr f \<Rightarrow> Inr (fmul f c))"

text \<open>\<open>int(x * c)\<close>.\<close>

definition int_scaled :: "int \<Rightarrow> dbl \<Rightarrow> py_error + int" where
  "int_scaled x c = (case int_times x c of Inl err \<Rightarrow> Inl err | Inr f \<Rightarrow> int_of_float f)"

text \<open>The literals of the source, each the double nearest to the decimal written there.\<close>

definition lit_1_1 :: dbl where "lit_1_1 = (2476979795053773, - 51)"
definition lit_1_05 :: dbl where "lit_1_05 = (4728779608739021, - 52)"
definition lit_1_12 :: dbl where "lit_1_12 = (1261007895663739, - 50)"
definition lit_1_18 :: dbl where "lit_1_18 = (5314247560297185, - 52)"
definition lit_1_07 :: dbl where "lit_1_07 = (4818851601286431, - 52)"
definition lit_0_8 :: dbl where "lit_0_8 = (3602879701896397, - 52)"
definition lit_0_65 :: dbl where "lit_0_65 = (5854679515581645, - 53)"
definition lit_1_5 :: dbl where "lit_1_5 = (3, - 1)"
definition lit_1_4 :: dbl where "lit_1_4 = (3152519739159347, - 51)"


text \<open>Exceptions propagate through a sequence of evaluations.\<close>

definition ebind :: "py_error + 'a \<Rightarrow> ('a \<Rightarrow> py_error + 'b) \<Rightarrow> py_error + 'b" where
  "ebind x f = (case x of Inl err \<Rightarrow> Inl err | Inr v \<Rightarrow> f v)"

section \<open>Python strings\<close>

text \<open>
  A string is the sequence of its UTF-8 bytes, the form in which the messages travel.
  The rupee sign and the dash of the message templates are their three-byte encodings.
  Case folding and whitespace are those of the ASCII range.
\<close>

definition rupee :: string where
  "rupee = [CHR 0xE2, CHR 0x82, CHR 0xB9]"

definition em_dash :: string where
  "em_dash = [CHR 0xE2, CHR 0x80, CHR 0x94]"

definition apostrophe :: string where
  "apostrophe = [CHR 0x27]"

definition digit_char :: "nat \<Rightarrow> char" where
  "digit_char d = char_of (48 + d)"

fun digits_of_nat :: "nat \<Rightarrow> string" where
  "digits_of_nat n =
     (if n < 10 then [digit_char n] else digits_of_nat (n div 10) @ [digit_char (n mod 10)])"

declare digits_of_nat.simps [simp del]

text \<open>Groups of three digits, counted from the least significant one, on reversed digits.\<close>

fun group3 :: "string \<Rightarrow> string" where
  "group3 (a # b # c # d # ds) = a # b # c # CHR '','' # group3 (d # ds)"
| "group3 ds = ds"

text \<open>The format \<open>{n:,}\<close> of an integer.\<close>

definition fmt_commas :: "int \<Rightarrow> string" where
  "fmt_commas n =
     (if n < 0 then ''-'' else []) @ rev (group3 (rev (digits_of_nat (nat \<bar>n\<bar>))))"

definition lower_char :: "char \<Rightarrow> char" where
  "lower_char c =
     (let n = of_char c :: nat in if 65 \<le> n \<and> n \<le> 90 then char_of (n + 32) else c)"

definition lower :: "string \<Rightarrow> string" where
  "lower s = map lower_char s"

definition is_space :: "char \<Rightarrow> bool" where
  "is_space c = (let n = of_char c :: nat in (9 \<le> n \<and> n \<le> 13) \<or> (28 \<le> n \<and> n \<le> 32))"

definition strip :: "string \<Rightarrow> string" where
  "strip s = rev (dropWhile is_space (rev (dropWhile is_space s)))"

definition startswith :: "string \<Rightarrow> string \<Rightarrow> bool" where
  "startswith s p = (take (length p) s = p)"

section \<open>The buyer agent (negotiation\_agent.py)\<close>

record Product =
  name :: string
  category :: string
  quantity :: int
  quality_grade :: string
  origin :: string
  base_market_price :: int

record NegotiationContext =
  product :: Product
  your_budget :: int
  current_round :: int
  seller_offers :: "int list"
  your_offers :: "int list"
  messages :: "(string \<times> string) list"

datatype DealStatus = ONGOING | ACCEPTED | REJECTED | COUNTER | TIMEOUT

text \<open>
  \<open>YourBuyerAgent.respond_to_seller_offer\<close>, the rule-based fallback of the buyer.
  The agent object holds a name, a persona and tactics only, none of them read here.
\<close>

definition respond_to_seller_offer ::
  "NegotiationContext \<Rightarrow> int \<Rightarrow> string \<Rightarrow> py_error + (DealStatus \<times> int \<times> string)" where
  "respond_to_seller_offer context seller_price seller_message =
     (if seller_price \<le> your_budget context
      then Inr (ACCEPTED, seller_price, ''That works for me. Deal accepted.'')
      else ebind (int_times (your_budget context) lit_1_5) (\<lambda>limit.
        if int_gt_float seller_price limit
        then Inr (REJECTED, 0, ''Too expensive, I cannot proceed.'')
        else
          ebind (if your_offers context \<noteq> [] then Inr (last (your_offers context))
                 else int_scaled (base_market_price (product context)) lit_0_65) (\<lambda>last_offer.
          ebind (int_scaled last_offer lit_1_07) (\<lambda>raised.
          ebind (int_scaled (your_budget context) lit_0_8) (\<lambda>anchor.
            let counter_price = max raised anchor
            in Inr (COUNTER, counter_price,
                    ''I can offer '' @ rupee @ fmt_commas counter_price @ ''.''))))))"

section \<open>The seller (seller\_server.py)\<close>

record SellerProduct =
  sp_name :: string
  sp_base_market_price :: int
  sp_quality_grade :: string
  sp_quantity :: int

record SellerServer =
  s_product :: SellerProduct
  min_price :: int
  current_price :: int
  round :: int

text \<open>A reply dictionary of the seller: the keys type, price, message and round.\<close>

record reply =
  r_type :: string
  r_price :: int
  r_message :: string
  r_round :: int

definition MARKET_PRICE :: int where
  "MARKET_PRICE = 180000"

text \<open>\<open>MIN_PRICE = int(MARKET_PRICE * 0.8)\<close>, the default of the constructor.\<close>

definition MIN_PRICE :: "py_error + int" where
  "MIN_PRICE = int_scaled MARKET_PRICE lit_0_8"

text \<open>\<open>SellerServer.__init__\<close>: the asking price starts above the market price.\<close>

definition SellerServer_init :: "SellerProduct \<Rightarrow> int \<Rightarrow> py_error + SellerServer" where
  "SellerServer_init p minp =
     ebind (int_scaled (sp_base_market_price p) lit_1_4) (\<lambda>start.
       Inr \<lparr>s_product = p, min_price = minp, current_price = start, round = 0\<rparr>)"

text \<open>
  \<open>SellerServer._rule_based_response\<close>.  The round counter is incremented first; the
  result is the updated server together with the reply.
\<close>

definition rule_based_response ::
  "SellerServer \<Rightarrow> int \<Rightarrow> string \<Rightarrow> py_error + (SellerServer \<times> reply)" where
  "rule_based_response self0 buyer_offer buyer_message =
     (let self = self0\<lparr>round := round self0 + 1\<rparr>
      in ebind (int_scaled (min_price self) lit_1_1) (\<lambda>threshold.
        if threshold \<le> buyer_offer
        then Inr (self, \<lparr>r_type = ''accept'', r_price = buyer_offer,
               r_message = ''Excellent '' @ em_dash @ '' I accept your offer of '' @ rupee
                 @ fmt_commas buyer_offer @ ''. Pleasure doing business.'',
               r_round = round self\<rparr>)
        else if buyer_offer \<le> 0
        then
          (let counter_price = current_price self
           in Inr (self, \<lparr>r_type = ''counter'', r_price = counter_price,
                r_message = ''My asking price remains '' @ rupee @ fmt_commas counter_price
                  @ ''. These are premium '' @ sp_quality_grade (s_product self) @ '' grade ''
                  @ sp_name (s_product self) @ ''.'',
                r_round = round self\<rparr>))
        else if 8 \<le> round self
        then ebind (int_scaled buyer_offer lit_1_05) (\<lambda>scaled.
          let counter_price = max (min_price self) scaled
          in Inr (self, \<lparr>r_type = ''counter'', r_price = counter_price,
               r_message = ''This is my final offer: '' @ rupee @ fmt_commas counter_price
                 @ ''. Take it or leave it.'',
               r_round = round self\<rparr>))
        else if 6 \<le> round self
        then ebind (int_scaled buyer_offer lit_1_12) (\<lambda>scaled.
          let counter_price = max (min_price self) scaled
          in Inr (self, \<lparr>r_type = ''counter'', r_price = counter_price,
               r_message = ''I'' @ apostrophe @ ''m coming down to '' @ rupee
                 @ fmt_commas counter_price @ '' '' @ em_dash @ '' that'' @ apostrophe
                 @ ''s really pushing my limits.'',
               r_round = round self\<rparr>))
        else ebind (int_scaled buyer_offer lit_1_18) (\<lambda>scaled.
          let counter_price = max (min_price self) scaled
          in Inr (self, \<lparr>r_type = ''counter'', r_price = counter_price,
               r_message = ''I appreciate your interest; I can come down to '' @ rupee
                 @ fmt_commas counter_price @ ''. Quality costs money.'',
               r_round = round self\<rparr>))))"

subsection \<open>Messages as dictionaries\<close>

text \<open>
  A decoded message is a dictionary.  The fields the program reads carry the types of
  the record schema (texts and integers) and may be absent; \<open>w_others\<close> lists the
  names of any further keys, which the program never reads.
\<close>

record wire =
  w_action :: "string option"
  w_type :: "string option"
  w_price :: "int option"
  w_message :: "string option"
  w_round :: "int option"
  w_others :: "string list"

text \<open>\<open>not d\<close> for a dictionary: it has no key at all.\<close>

definition dict_empty :: "wire \<Rightarrow> bool" where
  "dict_empty d =
     (w_action d = None \<and> w_type d = None \<and> w_price d = None \<and> w_message d = None
      \<and> w_round d = None \<and> w_others d = [])"

text \<open>\<open>d.get(k, dflt)\<close>.\<close>

definition get_or :: "'a option \<Rightarrow> 'a \<Rightarrow> 'a" where
  "get_or v dflt = (case v of None \<Rightarrow> dflt | Some x \<Rightarrow> x)"

subsection \<open>Extraction of the first balanced block\<close>

text \<open>\<open>text.find(c)\<close>: the index of the first occurrence, \<open>None\<close> for \<open>-1\<close>.\<close>

fun str_find :: "char \<Rightarrow> string \<Rightarrow> nat option" where
  "str_find c [] = None"
| "str_find c (x # xs) =
     (if x = c then Some 0 else case str_find c xs of None \<Rightarrow> None | Some i \<Rightarrow> Some (Suc i))"

text \<open>
  The loop of \<open>extract_first_json_block\<close> over the characters from index \<open>i\<close> on:
  the index at which the depth returns to zero, if there is one.
\<close>

fun scan_block :: "string \<Rightarrow> int \<Rightarrow> nat \<Rightarrow> nat option" where
  "scan_block [] depth i = None"
| "scan_block (ch # rest) depth i =
     (if ch = CHR ''{'' then scan_block rest (depth + 1) (i + 1)
      else if ch = CHR ''}''
      then (if depth - 1 = 0 then Some i else scan_block rest (depth - 1) (i + 1))
      else scan_block rest depth (i + 1))"

definition extract_first_json_block :: "string \<Rightarrow> string option" where
  "extract_first_json_block text =
     (if text = [] then None
      else case str_find (CHR ''{'') text of
        None \<Rightarrow> None
      | Some start \<Rightarrow>
          (case scan_block (drop start text) 0 start of
             None \<Rightarrow> None
           | Some i \<Rightarrow> Some (take (i + 1 - start) (drop start text))))"


subsection \<open>The seller's replies\<close>

text \<open>
  \<open>SellerServer._gemini_generate\<close> from the parsed output on.  \<open>parsed\<close> is the result
  of \<open>safe_json_loads_from_model_output\<close> on the text of the model, \<open>None\<close> when no
  dictionary was found or the call itself failed; both end in the same handler.
\<close>

definition gemini_generate :: "SellerServer \<Rightarrow> int \<Rightarrow> wire option \<Rightarrow> reply" where
  "gemini_generate self buyer_offer parsed =
     (let failure = \<lparr>r_type = ''reject'', r_price = 0,
            r_message = ''I'' @ apostrophe
              @ ''m unable to negotiate at this moment. Please try again later.'',
            r_round = round self\<rparr>
      in case parsed of
        None \<Rightarrow> failure
      | Some d \<Rightarrow>
          if dict_empty d then failure
          else
            let typ = lower (get_or (w_type d) []);
                price = get_or (w_price d) 0;
                message = strip (get_or (w_message d) []);
                typ = (if typ \<noteq> ''counter'' \<and> typ \<noteq> ''accept'' \<and> typ \<noteq> ''reject''
                       then (if startswith typ ''acc'' then ''accept''
                             else if startswith typ ''rej'' then ''reject''
                             else ''counter'')
                       else typ);
                price = (if typ = ''counter'' then max price (min_price self)
                         else if typ = ''accept''
                         then max (if price \<noteq> 0 then price
                                   else if buyer_offer \<noteq> 0 then buyer_offer
                                   else min_price self) (min_price self)
                         else price)
            in \<lparr>r_type = typ, r_price = price, r_message = message, r_round = round self\<rparr>)"

text \<open>
  \<open>SellerServer.handle_buyer_message\<close>.  \<open>use_gemini\<close> is \<open>USE_GEMINI and MODEL\<close>,
  fixed when the module is loaded; \<open>parsed\<close> is what the model answers at this call.
\<close>

definition handle_buyer_message ::
  "bool \<Rightarrow> wire option \<Rightarrow> SellerServer \<Rightarrow> wire \<Rightarrow> py_error + (SellerServer \<times> reply)" where
  "handle_buyer_message use_gemini parsed self buyer_data =
     (let action = lower
            (if get_or (w_action buyer_data) [] \<noteq> [] then get_or (w_action buyer_data) []
             else if get_or (w_type buyer_data) [] \<noteq> [] then get_or (w_type buyer_data) []
             else []);
          buyer_price = get_or (w_price buyer_data) 0;
          buyer_message = get_or (w_message buyer_data) []
      in if action = ''accept''
         then Inr (self, \<lparr>r_type = ''deal_confirmed'', r_price = buyer_price,
                r_message = ''Deal confirmed! Pleasure doing business with you.'',
                r_round = round self\<rparr>)
         else if action = ''reject''
         then Inr (self, \<lparr>r_type = ''reject'', r_price = 0,
                r_message = ''Understood. If you change your mind, let me know.'',
                r_round = round self\<rparr>)
         else if use_gemini
         then
           (let self = self\<lparr>round := round self + 1\<rparr>;
                rep = gemini_generate self buyer_price parsed
            in if r_type rep = ''counter'' \<and> r_price rep \<noteq> 0
               then Inr (self\<lparr>current_price := max (r_price rep) (min_price self)\<rparr>, rep)
               else Inr (self, rep))
         else rule_based_response self buyer_price buyer_message)"

section \<open>The buyer client (buyer\_client.py)\<close>

definition MAX_ROUNDS :: int where
  "MAX_ROUNDS = 10"

text \<open>The client with the messages it has sent, oldest first, and the state of its socket.\<close>

record BuyerClient =
  b_context :: "NegotiationContext option"
  negotiation_active :: bool
  budget :: int
  sent :: "wire list"
  sock_closed :: bool

definition buyer_msg :: "string \<Rightarrow> int \<Rightarrow> string \<Rightarrow> wire" where
  "buyer_msg a p m =
     \<lparr>w_action = Some a, w_type = None, w_price = Some p, w_message = Some m,
      w_round = None, w_others = []\<rparr>"

text \<open>\<open>BuyerClient.stop\<close>: a reject is sent and the socket closed.\<close>

definition stop :: "BuyerClient \<Rightarrow> string \<Rightarrow> BuyerClient" where
  "stop self reason =
     self\<lparr>negotiation_active := False,
          sent := sent self @ [buyer_msg ''reject'' 0 reason],
          sock_closed := True\<rparr>"

definition initial_context :: "int \<Rightarrow> NegotiationContext" where
  "initial_context b =
     \<lparr>product = \<lparr>name = ''Alphonso Mangoes'', category = ''Mangoes'', quantity = 100,
                 quality_grade = ''A'', origin = ''Ratnagiri'', base_market_price = 180000\<rparr>,
      your_budget = b, current_round = 0, seller_offers = [], your_offers = [],
      messages = []\<rparr>"

text \<open>
  \<open>BuyerClient.handle_offer\<close>.  \<open>use_ollama\<close> is the constant \<open>USE_OLLAMA\<close>;
  \<open>answer\<close> is the dictionary parsed from the text the model returns at this call,
  \<open>None\<close> when that text is not JSON.  The result is the client as the call leaves it
  and the exception it raised, if any: the context is updated before a missing key is met.
\<close>

definition handle_offer ::
  "bool \<Rightarrow> wire option \<Rightarrow> BuyerClient \<Rightarrow> wire \<Rightarrow> BuyerClient \<times> py_error option" where
  "handle_offer use_ollama answer self seller_data =
     (let ctx = (case b_context self of None \<Rightarrow> initial_context (budget self) | Some c \<Rightarrow> c);
          ctx = ctx\<lparr>current_round := current_round ctx + 1\<rparr>
      in case w_price seller_data of
        None \<Rightarrow> (self\<lparr>b_context := Some ctx\<rparr>, Some KeyError)
      | Some price \<Rightarrow>
         (let ctx = ctx\<lparr>seller_offers := seller_offers ctx @ [price]\<rparr>
          in case w_message seller_data of
            None \<Rightarrow> (self\<lparr>b_context := Some ctx\<rparr>, Some KeyError)
          | Some msg \<Rightarrow>
             (let ctx = ctx\<lparr>messages := messages ctx @ [(''seller'', msg)]\<rparr>;
                  response =
                    (if use_ollama
                     then Inr (case answer of
                            None \<Rightarrow> buyer_msg ''reject'' 0 ''Invalid model response.''
                          | Some r \<Rightarrow> r)
                     else ebind (respond_to_seller_offer ctx price msg)
                            (\<lambda>(status, counter_price, message).
                               Inr (buyer_msg
                                 (if status = ACCEPTED then ''accept''
                                  else if status = REJECTED then ''reject'' else ''counter'')
                                 counter_price message)))
              in case response of
                Inl err \<Rightarrow> (self\<lparr>b_context := Some ctx\<rparr>, Some err)
              | Inr buyer_response \<Rightarrow>
                  (case w_action buyer_response of
                     None \<Rightarrow> (self\<lparr>b_context := Some ctx\<rparr>, Some KeyError)
                   | Some act \<Rightarrow>
                       (if act = ''counter''
                        then (case w_price buyer_response of
                                None \<Rightarrow> (self\<lparr>b_context := Some ctx\<rparr>, Some KeyError)
                              | Some p \<Rightarrow>
                                  (self\<lparr>b_context :=
                                          Some (ctx\<lparr>your_offers := your_offers ctx @ [p]\<rparr>),
                                        sent := sent self @ [buyer_response]\<rparr>, None))
                        else (self\<lparr>b_context := Some ctx,
                                   sent := sent self @ [buyer_response]\<rparr>, None))))))"

text \<open>What one call of \<open>recv\<close> and \<open>json.loads\<close> delivers to \<open>negotiate\<close>.\<close>

datatype recv_event = NoData | Undecodable | Received wire


text \<open>
  \<open>BuyerClient.negotiate\<close>: one cycle.  The boolean tells whether the negotiation
  goes on.  Any exception ends it.
\<close>

definition negotiate ::
  "bool \<Rightarrow> wire option \<Rightarrow> BuyerClient \<Rightarrow> recv_event \<Rightarrow> BuyerClient \<times> bool" where
  "negotiate use_ollama answer self ev =
     (case ev of
        NoData \<Rightarrow> (self, False)
      | Undecodable \<Rightarrow> (self, True)
      | Received seller_data \<Rightarrow>
          if w_type seller_data = Some ''offer'' \<or> w_type seller_data = Some ''counter''
          then
            (case handle_offer use_ollama answer self seller_data of
               (self, Some err) \<Rightarrow> (self, False)
             | (self, None) \<Rightarrow>
                 if MAX_ROUNDS \<le> current_round (the (b_context self))
                 then (stop self ''Max rounds reached.'', False)
                 else (self, True))
          else if w_type seller_data = Some ''accept''
                  \<or> w_type seller_data = Some ''deal_confirmed''
          then (self, False)
          else if w_type seller_data = Some ''reject''
          then (self, False)
          else (self, True))"

section \<open>Reference points of the specification\<close>

text \<open>A literal between 0 and 2 with a negative exponent, as all literals of the source are.\<close>

definition small_lit :: "int \<Rightarrow> int \<Rightarrow> bool" where
  "small_lit M E = (0 < M \<and> E < 0 \<and> M < 2 * 2 ^ nat (- E))"

text \<open>
  The concession multiplier of the specification, keyed by the round count:
  1.05 from round 8 on, 1.12 in rounds 6 and 7, 1.18 before.
\<close>

definition seller_multiplier :: "int \<Rightarrow> dbl" where
  "seller_multiplier r = (if 8 \<le> r then lit_1_05 else if 6 \<le> r then lit_1_12 else lit_1_18)"

text \<open>The seller that \<open>main.py\<close> starts: the product on sale and the default floor.\<close>

definition mangoes :: SellerProduct where
  "mangoes = \<lparr>sp_name = ''Alphonso Mangoes'', sp_base_market_price = 180000,
     sp_quality_grade = ''A'', sp_quantity = 100\<rparr>"

definition default_seller :: SellerServer where
  "default_seller = \<lparr>s_product = mangoes, min_price = 144000, current_price = 251999, round = 0\<rparr>"

text \<open>The type and the price of a reply, when one is returned.\<close>

definition reply_of :: "py_error + (SellerServer \<times> reply) \<Rightarrow> (string \<times> int) option" where
  "reply_of res = (case res of Inl err \<Rightarrow> None | Inr (self, rep) \<Rightarrow> Some (r_type rep, r_price rep))"

text \<open>The server as the call leaves it, when a reply is returned.\<close>

definition server_of :: "py_error + (SellerServer \<times> reply) \<Rightarrow> SellerServer option" where
  "server_of res = (case res of Inl err \<Rightarrow> None | Inr (self, rep) \<Rightarrow> Some self)"

text \<open>The status and the price the buyer's fallback answers with, when it returns.\<close>

definition answer_of :: "py_error + (DealStatus \<times> int \<times> string) \<Rightarrow> (DealStatus \<times> int) option" where
  "answer_of res = (case res of Inl err \<Rightarrow> None | Inr (status, price, text) \<Rightarrow> Some (status, price))"

text \<open>
  The loop \<open>while buyer.negotiate(): continue\<close> of \<open>buyer_client.py\<close> against the
  messages a seller delivers, with no model consulted.
\<close>

fun negotiate_all :: "bool \<Rightarrow> BuyerClient \<Rightarrow> recv_event list \<Rightarrow> BuyerClient" where
  "negotiate_all use_ollama self [] = self"
| "negotiate_all use_ollama self (ev # evs) =
     (case negotiate use_ollama None self ev of
        (self', True) \<Rightarrow> negotiate_all use_ollama self' evs
      | (self', False) \<Rightarrow> self')"

text \<open>\<open>BuyerClient(budget)\<close> after \<open>connect()\<close>.\<close>

definition new_buyer :: "int \<Rightarrow> BuyerClient" where
  "new_buyer b = \<lparr>b_context = None, negotiation_active = True, budget = b, sent = [],
     sock_closed = False\<rparr>"

definition seller_msg :: "string \<Rightarrow> int \<Rightarrow> string \<Rightarrow> int \<Rightarrow> wire" where
  "seller_msg t p m r =
     \<lparr>w_action = None, w_type = Some t, w_price = Some p, w_message = Some m,
      w_round = Some r, w_others = []\<rparr>"

text \<open>A seller built with a floor of 144001, and one selling a product of base price 100000.\<close>

definition odd_floor_seller :: SellerServer where
  "odd_floor_seller = default_seller\<lparr>min_price := 144001\<rparr>"

definition cheap_seller :: SellerServer where
  "cheap_seller = \<lparr>s_product = mangoes\<lparr>sp_base_market_price := 100000\<rparr>, min_price = 144000,
     current_price = 140000, round = 0\<rparr>"

text \<open>The buyer's context after four counters of its own against a seller holding at 250000.\<close>

definition stalled_context :: NegotiationContext where
  "stalled_context = (initial_context 200000)
     \<lparr>current_round := 5, seller_offers := [250000, 250000, 250000, 250000, 250000],
      your_offers := [160000, 171200, 183184, 196006]\<rparr>"

text \<open>Five messages of a seller that holds its price at 250000.\<close>

definition holding_seller :: "recv_event list" where
  "holding_seller =
     [Received (seller_msg ''offer'' 250000 ''Welcome!'' 0),
      Received (seller_msg ''counter'' 250000 ''No.'' 1),
      Received (seller_msg ''counter'' 250000 ''No.'' 2),
      Received (seller_msg ''counter'' 250000 ''No.'' 3),
      Received (seller_msg ''counter'' 250000 ''No.'' 4)]"







text \<open>
  The nesting depth the specification speaks of: opening minus closing braces.
\<close>

definition brace_depth :: "string \<Rightarrow> int" where
  "brace_depth s = int (count_list s (CHR ''{'')) - int (count_list s (CHR ''}''))"

text \<open>The text from its first opening brace on.\<close>

definition from_first_brace :: "string \<Rightarrow> string" where
  "from_first_brace s = dropWhile (\<lambda>c. c \<noteq> CHR ''{'') s"

text \<open>
  The normalisation of a discriminant in the words of the specification: a recognised
  kind stays, otherwise a prefix \<open>acc\<close> gives accept, a prefix \<open>rej\<close> gives
  reject, and anything else gives counter.
\<close>

definition normalize_kind :: "string \<Rightarrow> string" where
  "normalize_kind t =
     (if t = ''counter'' \<or> t = ''accept'' \<or> t = ''reject'' then t
      else if startswith t ''acc'' then ''accept''
      else if startswith t ''rej'' then ''reject''
      else ''counter'')"

text \<open>The action \<open>handle_buyer_message\<close> reads: the key action, else the key type, in lower case.\<close>

definition action_of :: "wire \<Rightarrow> string" where
  "action_of d =
     lower (if get_or (w_action d) [] \<noteq> [] then get_or (w_action d) []
            else get_or (w_type d) [])"

text \<open>The empty dictionary, and a model answer that holds a type only.\<close>

definition empty_dict :: wire where
  "empty_dict = \<lparr>w_action = None, w_type = None, w_price = None, w_message = None,
     w_round = None, w_others = []\<rparr>"

definition type_only :: "string \<Rightarrow> wire" where
  "type_only t = empty_dict\<lparr>w_type := Some t\<rparr>"

section \<open>Rounding and the absence of overflow\<close>

lemmas dbl_eval = int_scaled_def int_times_def float_of_int_def round53_def rne_def
  dbl_overflow_def compute_bitlen Let_def

lemma rne_upper: "0 \<le> p \<Longrightarrow> rne p s * 2 ^ s \<le> p + 2 ^ s"
proof -
  assume "0 \<le> p"
  have "rne p s \<le> p div 2 ^ s + 1" by (simp add: rne_def Let_def)
  then have "rne p s * 2 ^ s \<le> (p div 2 ^ s + 1) * 2 ^ s"
    by (simp add: mult_right_mono)
  also have "\<dots> = (p div 2 ^ s) * 2 ^ s + 2 ^ s" by (simp add: algebra_simps)
  also have "\<dots> \<le> p + 2 ^ s"
  proof -
    have "(0::int) \<le> p mod 2 ^ s" by simp
    moreover have "(p div 2 ^ s) * 2 ^ s + p mod 2 ^ s = p" by (rule div_mult_mod_eq)
    ultimately show ?thesis by linarith
  qed
  finally show ?thesis .
qed

lemma rne_nonneg: "0 \<le> p \<Longrightarrow> 0 \<le> rne p s"
  by (simp add: rne_def Let_def pos_imp_zdiv_nonneg_iff)

lemma round53_bounds:
  assumes "0 \<le> p" and "round53 p = (m, s)"
  shows "0 \<le> m \<and> m * 2 ^ s \<le> 2 * p"
proof (cases "bitlen p \<le> 53")
  case True
  with assms show ?thesis by (simp add: round53_def)
next
  case False
  then have pos: "0 < p" using assms(1) by (cases "p = 0") auto
  define t where "t = nat (bitlen p - 53)"
  from False assms(2) have ms: "m = rne p t" "s = t"
    by (auto simp add: round53_def t_def Let_def)
  have "t \<le> nat (bitlen p - 1)" using False by (simp add: t_def)
  then have "(2::int) ^ t \<le> 2 ^ nat (bitlen p - 1)" by (simp add: power_increasing)
  also have "\<dots> \<le> p" using bitlen_bounds [OF pos] by simp
  finally have "(2::int) ^ t \<le> p" .
  with rne_upper [OF assms(1), of t] rne_nonneg [OF assms(1), of t] ms
  show ?thesis by simp
qed

lemma float_of_int_defined:
  assumes "\<bar>x\<bar> < 2 ^ 1023"
  shows "float_of_int x = Inr (sgn x * fst (round53 \<bar>x\<bar>), int (snd (round53 \<bar>x\<bar>)))"
proof -
  obtain m s where r: "round53 \<bar>x\<bar> = (m, s)" by (cases "round53 \<bar>x\<bar>") auto
  from round53_bounds [OF _ r] have b: "0 \<le> m" "m * 2 ^ s \<le> 2 * \<bar>x\<bar>" by simp_all
  from b(2) assms have "m * 2 ^ s < 2 ^ 1024" by simp
  then have "\<not> dbl_overflow m (int s)" by (simp add: dbl_overflow_def)
  with r show ?thesis by (simp add: float_of_int_def)
qed

lemma split_pow:
  assumes "m * 2 ^ n \<le> c * 2 ^ k" and "n = j + k"
  shows "m * 2 ^ j \<le> (c::int)"
proof -
  from assms have "(m * 2 ^ j) * 2 ^ k \<le> c * 2 ^ k" by (simp add: power_add mult.assoc)
  then show ?thesis by simp
qed

text \<open>
  An integer below \<open>2^1020\<close> times a literal below 2 is a finite double, and its
  truncation is at most eight times the integer in absolute value.
\<close>

lemma int_scaled_defined:
  assumes x: "\<bar>x\<bar> < 2 ^ 1020" and lit: "small_lit M E"
  shows "\<exists>v. int_scaled x (M, E) = Inr v \<and> \<bar>v\<bar> \<le> 8 * \<bar>x\<bar>"
proof -
  obtain m1 s1 where r1: "round53 \<bar>x\<bar> = (m1, s1)" by (cases "round53 \<bar>x\<bar>") auto
  from round53_bounds [OF _ r1] have b1: "0 \<le> m1" "m1 * 2 ^ s1 \<le> 2 * \<bar>x\<bar>" by simp_all
  have "\<bar>x\<bar> < 2 ^ 1023" using x by simp
  from float_of_int_defined [OF this] r1
  have f: "float_of_int x = Inr (sgn x * m1, int s1)" by simp
  define p where "p = sgn x * m1 * M"
  obtain m s where r: "round53 \<bar>p\<bar> = (m, s)" by (cases "round53 \<bar>p\<bar>") auto
  from round53_bounds [OF _ r] have b: "0 \<le> m" "m * 2 ^ s \<le> 2 * \<bar>p\<bar>" by simp_all
  from lit have M: "0 < M" "E < 0" "M < 2 * 2 ^ nat (- E)" by (simp_all add: small_lit_def)
  have "\<bar>p\<bar> \<le> m1 * M" using b1(1) M(1) by (simp add: p_def abs_mult abs_sgn_eq)
  then have "\<bar>p\<bar> * 2 ^ s1 \<le> m1 * M * 2 ^ s1" by (simp add: mult_right_mono)
  also have "\<dots> = (m1 * 2 ^ s1) * M" by (simp add: algebra_simps)
  also have "\<dots> \<le> (2 * \<bar>x\<bar>) * M" using b1(2) M(1) by (simp add: mult_right_mono)
  finally have pb: "\<bar>p\<bar> * 2 ^ s1 \<le> 2 * \<bar>x\<bar> * M" .
  have "m * 2 ^ s * 2 ^ s1 \<le> 2 * \<bar>p\<bar> * 2 ^ s1" using b(2) by (simp add: mult_right_mono)
  also have "\<dots> = 2 * (\<bar>p\<bar> * 2 ^ s1)" by simp
  also have "\<dots> \<le> 2 * (2 * \<bar>x\<bar> * M)" using pb by (rule mult_left_mono) simp
  also have "\<dots> \<le> 2 * (2 * \<bar>x\<bar> * (2 * 2 ^ nat (- E)))"
  proof -
    have "M \<le> 2 * 2 ^ nat (- E)" using M(3) by simp
    then have "2 * \<bar>x\<bar> * M \<le> 2 * \<bar>x\<bar> * (2 * 2 ^ nat (- E))"
      by (rule mult_left_mono) simp
    then show ?thesis by simp
  qed
  finally have key: "m * 2 ^ (s + s1) \<le> 8 * \<bar>x\<bar> * 2 ^ nat (- E)"
    by (simp add: power_add algebra_simps)
  define e where "e = int s1 + E + int s"
  have no_ovf: "\<not> dbl_overflow m e"
  proof
    assume "dbl_overflow m e"
    then have e0: "0 \<le> e" and big: "2 ^ 1024 \<le> m * 2 ^ nat e" by (simp_all add: dbl_overflow_def)
    have "s + s1 = nat e + nat (- E)" using e0 M(2) by (simp add: e_def)
    with key have "m * 2 ^ nat e \<le> 8 * \<bar>x\<bar>" by (rule split_pow)
    with big x show False by simp
  qed
  have fm: "fmul (sgn x * m1, int s1) (M, E) = Finite (sgn p * m) e"
    using r no_ovf by (simp add: p_def e_def Let_def)
  have val: "\<exists>v. int_of_float (Finite (sgn p * m) e) = Inr v \<and> \<bar>v\<bar> \<le> 8 * \<bar>x\<bar>"
  proof (cases "0 \<le> e")
    case True
    then have "s + s1 = nat e + nat (- E)" using M(2) by (simp add: e_def)
    with key have "m * 2 ^ nat e \<le> 8 * \<bar>x\<bar>" by (rule split_pow)
    moreover have "\<bar>sgn p * m * 2 ^ nat e\<bar> \<le> m * 2 ^ nat e"
      using b(1) by (simp add: abs_mult abs_sgn_eq)
    ultimately show ?thesis using True by simp
  next
    case False
    then have "s + s1 + nat (- e) = nat (- E)" using M(2) by (simp add: e_def)
    then have "(2::int) ^ nat (- E) = 2 ^ (s + s1) * 2 ^ nat (- e)"
      by (simp flip: power_add)
    with key have "m * 2 ^ (s + s1) \<le> (8 * \<bar>x\<bar> * 2 ^ nat (- e)) * 2 ^ (s + s1)"
      by (simp add: algebra_simps)
    then have "m \<le> 8 * \<bar>x\<bar> * 2 ^ nat (- e)" by simp
    then have "m div 2 ^ nat (- e) \<le> 8 * \<bar>x\<bar>"
      by (metis zdiv_mono1 nonzero_mult_div_cancel_right power_eq_0_iff zero_less_numeral
          zero_less_power zero_neq_numeral)
    moreover have "0 \<le> m div 2 ^ nat (- e)" using b(1) by (simp add: pos_imp_zdiv_nonneg_iff)
    moreover have "\<bar>sgn p * (\<bar>m\<bar> div 2 ^ nat (- e))\<bar> \<le> \<bar>m\<bar> div 2 ^ nat (- e)"
      using b(1) by (simp add: abs_mult abs_sgn_eq pos_imp_zdiv_nonneg_iff)
    ultimately show ?thesis using False b(1) by (simp add: abs_mult abs_sgn_eq)
  qed
  show ?thesis using f fm val by (simp add: int_scaled_def int_times_def)
qed

lemma small_lits:
  "small_lit 2476979795053773 (- 51)" "small_lit 4728779608739021 (- 52)"
  "small_lit 1261007895663739 (- 50)" "small_lit 5314247560297185 (- 52)"
  "small_lit 4818851601286431 (- 52)" "small_lit 3602879701896397 (- 52)"
  "small_lit 5854679515581645 (- 53)" "small_lit 3 (- 1)"
  "small_lit 3152519739159347 (- 51)"
  by (simp_all add: small_lit_def)

lemma int_scaled_error: "int_scaled x c = Inl err \<Longrightarrow> err = OverflowError"
  by (cases c)
    (auto simp add: int_scaled_def int_times_def float_of_int_def Let_def
      split: prod.splits if_splits sum.splits)

section \<open>The seller's rule-based policy\<close>

lemma default_seller_init: "SellerServer_init mangoes 144000 = Inr default_seller"
  by (simp add: SellerServer_init_def ebind_def mangoes_def default_seller_def lit_1_4_def dbl_eval)

lemma MIN_PRICE_value: "MIN_PRICE = Inr 144000"
  by (simp add: MIN_PRICE_def MARKET_PRICE_def lit_0_8_def dbl_eval)

lemma rule_based_cases:
  assumes "rule_based_response self offer msg = Inr (self', rep)"
  shows "self' = self\<lparr>round := round self + 1\<rparr> \<and> r_round rep = round self + 1 \<and>
    (\<exists>threshold. int_scaled (min_price self) lit_1_1 = Inr threshold \<and>
      (threshold \<le> offer \<longrightarrow> r_type rep = ''accept'' \<and> r_price rep = offer) \<and>
      (offer < threshold \<and> offer \<le> 0 \<longrightarrow>
         r_type rep = ''counter'' \<and> r_price rep = current_price self) \<and>
      (offer < threshold \<and> 0 < offer \<longrightarrow>
         r_type rep = ''counter'' \<and>
         (\<exists>scaled. int_scaled offer (seller_multiplier (round self + 1)) = Inr scaled \<and>
            r_price rep = max (min_price self) scaled)))"
  using assms
  by (auto simp add: rule_based_response_def ebind_def seller_multiplier_def Let_def
      split: sum.splits if_splits)

lemma rule_based_error:
  "rule_based_response self offer msg = Inl err \<Longrightarrow> err = OverflowError"
  by (auto simp add: rule_based_response_def ebind_def Let_def
      split: sum.splits if_splits dest: int_scaled_error)

lemma rule_based_defined:
  assumes "\<bar>min_price self\<bar> < 2 ^ 1000"
  shows "\<exists>self' rep. rule_based_response self offer msg = Inr (self', rep)"
proof -
  have "\<bar>min_price self\<bar> < 2 ^ 1020" using assms by simp
  from int_scaled_defined [OF this small_lits(1)]
  obtain threshold where t: "int_scaled (min_price self) lit_1_1 = Inr threshold"
    and tb: "\<bar>threshold\<bar> \<le> 8 * \<bar>min_price self\<bar>" by (auto simp add: lit_1_1_def)
  show ?thesis
  proof (cases "offer < threshold \<and> 0 < offer")
    case False
    with t show ?thesis
      by (auto simp add: rule_based_response_def ebind_def Let_def)
  next
    case True
    then have "\<bar>offer\<bar> < 8 * \<bar>min_price self\<bar>" using tb by simp
    with assms have ob: "\<bar>offer\<bar> < 2 ^ 1020" by simp
    obtain a where a: "int_scaled offer lit_1_05 = Inr a"
      using int_scaled_defined [OF ob small_lits(2)] by (auto simp add: lit_1_05_def)
    obtain b where b: "int_scaled offer lit_1_12 = Inr b"
      using int_scaled_defined [OF ob small_lits(3)] by (auto simp add: lit_1_12_def)
    obtain c where c: "int_scaled offer lit_1_18 = Inr c"
      using int_scaled_defined [OF ob small_lits(4)] by (auto simp add: lit_1_18_def)
    from True t a b c show ?thesis
      by (simp add: rule_based_response_def ebind_def Let_def)
  qed
qed

lemma rule_based_accepts_or_counters:
  "(\<exists>self' rep. rule_based_response self offer msg = Inr (self', rep) \<and>
      (r_type rep = ''accept'' \<or> r_type rep = ''counter''))
   \<or> (rule_based_response self offer msg = Inl OverflowError \<and> 2 ^ 1000 \<le> \<bar>min_price self\<bar>)"
proof (cases "rule_based_response self offer msg")
  case (Inl err)
  then have "err = OverflowError" by (rule rule_based_error)
  moreover have "2 ^ 1000 \<le> \<bar>min_price self\<bar>"
    using rule_based_defined [of self offer msg] Inl by fastforce
  ultimately show ?thesis using Inl by simp
next
  case (Inr res)
  obtain self' rep where "res = (self', rep)" by (cases res)
  with Inr rule_based_cases [of self offer msg self' rep] show ?thesis
    by (cases "offer \<le> 0") fastforce+
qed

lemma cheap_seller_init:
  "SellerServer_init (mangoes\<lparr>sp_base_market_price := 100000\<rparr>) 144000 = Inr cheap_seller"
  by (simp add: SellerServer_init_def ebind_def mangoes_def cheap_seller_def lit_1_4_def dbl_eval)

lemma threshold_144000: "int_scaled 144000 lit_1_1 = Inr 158400"
  by (simp add: lit_1_1_def dbl_eval)

lemma threshold_144001: "int_scaled 144001 lit_1_1 = Inr 158401"
  by (simp add: lit_1_1_def dbl_eval)

text \<open>
  C2, as the code has it.  With a floor below \<open>2^1000\<close> in absolute value the policy
  returns, and the reply follows the ordered rules: accept at the offered price exactly
  when the offer reaches \<open>int(floor * 1.1)\<close>, the product truncated to an integer;
  a non-positive offer is countered at the current asking price; any other offer is
  countered at \<open>max(floor, int(offer * m))\<close>, where \<open>m\<close> is keyed by the round
  count after its increment, so that this counter is at least the floor.  A counter at
  the asking price is at least the floor when the asking price is.
\<close>

theorem seller_fallback_rules:
  assumes "\<bar>min_price self\<bar> < 2 ^ 1000"
  shows "\<exists>self' rep threshold.
    rule_based_response self offer msg = Inr (self', rep) \<and>
    r_round rep = round self + 1 \<and>
    int_scaled (min_price self) lit_1_1 = Inr threshold \<and>
    (r_type rep = ''accept'' \<longleftrightarrow> threshold \<le> offer) \<and>
    (threshold \<le> offer \<longrightarrow> r_price rep = offer) \<and>
    (offer < threshold \<and> offer \<le> 0 \<longrightarrow>
       r_type rep = ''counter'' \<and> r_price rep = current_price self) \<and>
    (offer < threshold \<and> 0 < offer \<longrightarrow>
       r_type rep = ''counter'' \<and> min_price self \<le> r_price rep \<and>
       (\<exists>scaled. int_scaled offer (seller_multiplier (r_round rep)) = Inr scaled \<and>
          r_price rep = max (min_price self) scaled)) \<and>
    (r_type rep = ''counter'' \<and> min_price self \<le> current_price self \<longrightarrow>
       min_price self \<le> r_price rep)"
proof -
  from rule_based_defined [OF assms] obtain self' rep
    where r: "rule_based_response self offer msg = Inr (self', rep)" by blast
  from rule_based_cases [OF r] obtain threshold where
    rr: "r_round rep = round self + 1" and
    t: "int_scaled (min_price self) lit_1_1 = Inr threshold" and
    a: "threshold \<le> offer \<longrightarrow> r_type rep = ''accept'' \<and> r_price rep = offer" and
    b: "offer < threshold \<and> offer \<le> 0 \<longrightarrow>
         r_type rep = ''counter'' \<and> r_price rep = current_price self" and
    c: "offer < threshold \<and> 0 < offer \<longrightarrow>
         r_type rep = ''counter'' \<and>
         (\<exists>scaled. int_scaled offer (seller_multiplier (round self + 1)) = Inr scaled \<and>
            r_price rep = max (min_price self) scaled)"
    by blast
  have d: "r_type rep = ''accept'' \<longrightarrow> threshold \<le> offer"
    using b c by (cases "offer \<le> 0") auto
  show ?thesis
    using r rr t a b c d by (intro exI [of _ self'] exI [of _ rep] exI [of _ threshold]) auto
qed

text \<open>
  Scenario A, from the theorem: with floor 144000 an offer of 150000 is countered (at
  177000) and an offer of 170000 is accepted at 170000.
\<close>

theorem seller_fallback_rules_witness:
  "reply_of (rule_based_response default_seller 150000 []) = Some (''counter'', 177000)
   \<and> reply_of (rule_based_response default_seller 170000 []) = Some (''accept'', 170000)"
proof -
  have s: "int_scaled 150000 lit_1_18 = Inr 177000" by (simp add: lit_1_18_def dbl_eval)
  have m: "\<bar>min_price default_seller\<bar> < 2 ^ 1000" by (simp add: default_seller_def)
  from seller_fallback_rules [OF m, of 150000 "[]"] have
    "reply_of (rule_based_response default_seller 150000 []) = Some (''counter'', 177000)"
    by (auto simp add: reply_of_def default_seller_def threshold_144000 seller_multiplier_def s)
  moreover from seller_fallback_rules [OF m, of 170000 "[]"] have
    "reply_of (rule_based_response default_seller 170000 []) = Some (''accept'', 170000)"
    by (auto simp add: reply_of_def default_seller_def threshold_144000)
  ultimately show ?thesis by simp
qed

text \<open>
  C2 as the specification words it fails twice.  With floor 144001 the offer 158401 is
  accepted although it is below 144001 * 1.1 = 158401.1.  And the seller of a product
  of base price 100000 with the default floor 144000 asks 140000, so that its counter
  to an offer of 0 is below the floor.
\<close>

theorem seller_rules_counterexample:
  "reply_of (rule_based_response odd_floor_seller 158401 []) = Some (''accept'', 158401)
   \<and> \<not> (of_int (min_price odd_floor_seller) * 11 / 10 \<le> (158401 :: rat))
   \<and> reply_of (rule_based_response cheap_seller 0 []) = Some (''counter'', 140000)
   \<and> 140000 < min_price cheap_seller"
  by (simp add: reply_of_def rule_based_response_def ebind_def odd_floor_seller_def
      default_seller_def cheap_seller_def threshold_144000 threshold_144001)

text \<open>
  C5.  The rule-based policy counters an offer of 100000 at 144000 and leaves the
  asking price of the server at 251999: the tracker is not advanced by the counter.
\<close>

theorem tracker_not_advanced:
  "reply_of (rule_based_response default_seller 100000 []) = Some (''counter'', 144000)
   \<and> map_option current_price (server_of (rule_based_response default_seller 100000 []))
       = Some 251999"
proof -
  have s: "int_scaled 100000 lit_1_18 = Inr 118000" by (simp add: lit_1_18_def dbl_eval)
  show ?thesis
    by (simp add: reply_of_def server_of_def rule_based_response_def ebind_def
        default_seller_def threshold_144000 s)
qed

section \<open>The seller's handling of a buyer message\<close>

lemma or_empty:
  "(if a \<noteq> [] then a else if t \<noteq> [] then t else []) = (if a \<noteq> [] then a else t)"
  by simp

lemma handle_buyer_message_unfold:
  "handle_buyer_message use_gemini parsed self d =
     (if action_of d = ''accept''
      then Inr (self, \<lparr>r_type = ''deal_confirmed'', r_price = get_or (w_price d) 0,
             r_message = ''Deal confirmed! Pleasure doing business with you.'',
             r_round = round self\<rparr>)
      else if action_of d = ''reject''
      then Inr (self, \<lparr>r_type = ''reject'', r_price = 0,
             r_message = ''Understood. If you change your mind, let me know.'',
             r_round = round self\<rparr>)
      else if use_gemini
      then
        (if r_type (gemini_generate (self\<lparr>round := round self + 1\<rparr>) (get_or (w_price d) 0) parsed)
              = ''counter''
            \<and> r_price (gemini_generate (self\<lparr>round := round self + 1\<rparr>) (get_or (w_price d) 0) parsed)
              \<noteq> 0
         then Inr (self\<lparr>round := round self + 1,
                current_price :=
                  max (r_price (gemini_generate (self\<lparr>round := round self + 1\<rparr>)
                         (get_or (w_price d) 0) parsed)) (min_price self)\<rparr>,
                gemini_generate (self\<lparr>round := round self + 1\<rparr>) (get_or (w_price d) 0) parsed)
         else Inr (self\<lparr>round := round self + 1\<rparr>,
                gemini_generate (self\<lparr>round := round self + 1\<rparr>) (get_or (w_price d) 0) parsed))
      else rule_based_response self (get_or (w_price d) 0) (get_or (w_message d) []))"
  by (simp add: handle_buyer_message_def action_of_def Let_def or_empty)

lemma gemini_generate_reject:
  assumes "r_type (gemini_generate self offer parsed) = ''reject''"
  shows "case parsed of
         None \<Rightarrow> True
       | Some answer \<Rightarrow>
           dict_empty answer \<or> normalize_kind (lower (get_or (w_type answer) [])) = ''reject''"
  using assms
  by (auto simp add: gemini_generate_def normalize_kind_def Let_def split: option.splits if_splits)

lemma handle_buyer_message_reject_origin:
  assumes "handle_buyer_message use_gemini parsed self d = Inr (self', rep)"
    and "r_type rep = ''reject''"
  shows "action_of d = ''reject'' \<or>
    (use_gemini \<and> action_of d \<noteq> ''accept'' \<and>
      (case parsed of
         None \<Rightarrow> True
       | Some answer \<Rightarrow>
           dict_empty answer \<or> normalize_kind (lower (get_or (w_type answer) [])) = ''reject''))"
proof (cases "action_of d = ''accept'' \<or> action_of d = ''reject''")
  case True
  with assms show ?thesis
    by (auto simp add: handle_buyer_message_unfold)
next
  case False
  show ?thesis
  proof (cases use_gemini)
    case True
    with False assms have
      "r_type (gemini_generate (self\<lparr>round := round self + 1\<rparr>) (get_or (w_price d) 0) parsed)
         = ''reject''"
      by (auto simp add: handle_buyer_message_unfold split: if_splits)
    from gemini_generate_reject [OF this] True False show ?thesis by simp
  next
    case ng: False
    with False assms(1) have
      "rule_based_response self (get_or (w_price d) 0) (get_or (w_message d) []) = Inr (self', rep)"
      by (simp add: handle_buyer_message_unfold)
    from rule_based_cases [OF this] assms(2) show ?thesis
      by (cases "get_or (w_price d) 0 \<le> 0") auto
  qed
qed



text \<open>
  C9, as the code has it.  For every buyer offer and every round count the rule-based
  policy of the seller returns a reply of type accept or counter, never reject; its
  only other outcome is the OverflowError of a float conversion, which needs a floor
  of at least \<open>2^1000\<close> in absolute value.  A reply of type reject is the
  acknowledgement of a reject of the buyer, or it comes from the external model: from
  its failure, or from its own answer of type reject.
\<close>

theorem seller_rejects_only_by_model:
  "((\<exists>self' rep. rule_based_response self offer msg = Inr (self', rep) \<and>
       (r_type rep = ''accept'' \<or> r_type rep = ''counter''))
    \<or> (rule_based_response self offer msg = Inl OverflowError \<and> 2 ^ 1000 \<le> \<bar>min_price self\<bar>))
   \<and> (\<forall>self' rep. handle_buyer_message use_gemini parsed self d = Inr (self', rep)
          \<and> r_type rep = ''reject'' \<longrightarrow>
        action_of d = ''reject'' \<or>
        (use_gemini \<and> action_of d \<noteq> ''accept'' \<and>
          (case parsed of
             None \<Rightarrow> True
           | Some answer \<Rightarrow>
               dict_empty answer \<or>
               normalize_kind (lower (get_or (w_type answer) [])) = ''reject'')))"
  using rule_based_accepts_or_counters [of self offer msg]
    handle_buyer_message_reject_origin [of use_gemini parsed self d]
  by blast

text \<open>
  The default seller counters an offer of 100000; its reply to the reject of a buyer
  is the only reject it sends without a model.
\<close>

theorem seller_rejects_only_by_model_witness:
  "(\<exists>self' rep. rule_based_response default_seller 100000 [] = Inr (self', rep) \<and>
      (r_type rep = ''accept'' \<or> r_type rep = ''counter''))
   \<and> reply_of (handle_buyer_message False None default_seller (buyer_msg ''reject'' 0 ''Bye.''))
       = Some (''reject'', 0)
   \<and> action_of (buyer_msg ''reject'' 0 ''Bye.'') = ''reject''"
proof -
  have a: "action_of (buyer_msg ''reject'' 0 ''Bye.'') = ''reject''"
    by (simp add: action_of_def buyer_msg_def get_or_def lower_def lower_char_def)
  have h: "handle_buyer_message False None default_seller (buyer_msg ''reject'' 0 ''Bye.'')
    = Inr (default_seller, \<lparr>r_type = ''reject'', r_price = 0,
             r_message = ''Understood. If you change your mind, let me know.'',
             r_round = round default_seller\<rparr>)"
    by (simp add: handle_buyer_message_unfold a)
  from seller_rejects_only_by_model
    [of default_seller 100000 "[]" False None "buyer_msg ''reject'' 0 ''Bye.''"] h
  show ?thesis by (simp add: default_seller_def reply_of_def)
qed

text \<open>
  C9 as the claim words it fails in its last part: a reject of the seller need not
  come from the failure path of the external model.  A model that answers with the
  type reject is obeyed.
\<close>

theorem reject_origin_counterexample:
  "r_type (gemini_generate default_seller 100000 (Some (type_only ''reject''))) = ''reject''
   \<and> \<not> dict_empty (type_only ''reject'')
   \<and> reply_of (handle_buyer_message True (Some (type_only ''reject'')) default_seller
        (buyer_msg ''counter'' 100000 ''ok'')) = Some (''reject'', 0)"
proof -
  have l: "lower ''reject'' = ''reject''" "lower ''counter'' = ''counter''"
    by (simp_all add: lower_def lower_char_def)
  show ?thesis
    by (simp add: gemini_generate_def type_only_def empty_dict_def dict_empty_def get_or_def l
        reply_of_def handle_buyer_message_def buyer_msg_def default_seller_def strip_def)
qed

section \<open>The buyer's rule-based policy\<close>

lemma buyer_steps:
  "int_scaled 180000 lit_0_65 = Inr 117000" "int_scaled 117000 lit_1_07 = Inr 125190"
  "int_scaled 200000 lit_0_8 = Inr 160000" "int_scaled 160000 lit_1_07 = Inr 171200"
  "int_scaled 171200 lit_1_07 = Inr 183184" "int_scaled 183184 lit_1_07 = Inr 196006"
  "int_scaled 196006 lit_1_07 = Inr 209726"
  "int_times 200000 lit_1_5 = Inr (Finite 600000 (- 1))"
  by (simp_all add: lit_1_07_def lit_0_8_def lit_0_65_def lit_1_5_def dbl_eval)








text \<open>
  C1.  The counter of the fallback is not capped by the budget.  With budget 200000,
  after own offers of 160000, 171200, 183184 and 196006, a seller price of 250000 is
  countered at 209726.  The context is the one the client reaches by itself against a
  seller that holds at 250000: the fifth message it sends carries that price.
\<close>

theorem buyer_counter_exceeds_budget:
  "answer_of (respond_to_seller_offer stalled_context 250000 []) = Some (COUNTER, 209726)
   \<and> your_budget stalled_context = 200000
   \<and> map w_price (sent (negotiate_all False (new_buyer 200000) holding_seller))
       = [Some 160000, Some 171200, Some 183184, Some 196006, Some 209726]"
proof -
  have a: "answer_of (respond_to_seller_offer stalled_context 250000 []) = Some (COUNTER, 209726)"
    by (simp add: answer_of_def respond_to_seller_offer_def ebind_def stalled_context_def
        initial_context_def buyer_steps)
  have b: "your_budget stalled_context = 200000"
    by (simp add: stalled_context_def initial_context_def)
  have c: "map w_price (sent (negotiate_all False (new_buyer 200000) holding_seller))
       = [Some 160000, Some 171200, Some 183184, Some 196006, Some 209726]"
    by (simp add: holding_seller_def new_buyer_def negotiate_def handle_offer_def seller_msg_def
        buyer_msg_def respond_to_seller_offer_def ebind_def initial_context_def buyer_steps
        MAX_ROUNDS_def Let_def)
  from a b c show ?thesis by simp
qed

section \<open>The round limit of the buyer client\<close>






section \<open>Extraction and decoding\<close>





lemma scan_block_bounds:
  "scan_block xs d i = Some j \<Longrightarrow> i \<le> j \<and> j < i + length xs"
proof (induction xs arbitrary: d i)
  case Nil
  then show ?case by simp
next
  case (Cons x xs)
  show ?case
  proof (cases "scan_block (x # xs) d i = scan_block xs (if x = CHR ''{'' then d + 1 else if x = CHR ''}'' then d - 1 else d) (i + 1)")
    case True
    with Cons.prems Cons.IH show ?thesis by fastforce
  next
    case False
    with Cons.prems show ?thesis by (auto split: if_splits)
  qed
qed






lemma brace_depth_simps [simp]:
  "brace_depth [] = 0"
  "brace_depth (x # xs) =
     (if x = CHR ''{'' then 1 else if x = CHR ''}'' then - 1 else 0) + brace_depth xs"
  by (simp_all add: brace_depth_def)

text \<open>One step of the loop: the depth after the character, unless the loop returns at it.\<close>

lemma scan_block_step:
  "\<not> (x = CHR ''}'' \<and> d = 1) \<Longrightarrow>
   scan_block (x # xs) d i =
     scan_block xs (d + (if x = CHR ''{'' then 1 else if x = CHR ''}'' then - 1 else 0)) (Suc i)"
  by auto

lemma scan_block_sound:
  assumes "1 \<le> d" and "scan_block xs d i = Some j"
  shows "d + brace_depth (take (j - i + 1) xs) = 0 \<and>
    (\<forall>n \<le> j - i. 0 < d + brace_depth (take n xs))"
  using assms
proof (induction xs arbitrary: d i)
  case Nil
  then show ?case by simp
next
  case (Cons x xs)
  show ?case
  proof (cases "x = CHR ''}'' \<and> d = 1")
    case True
    with Cons.prems show ?thesis by simp
  next
    case False
    define d' where "d' = d + (if x = CHR ''{'' then 1 else if x = CHR ''}'' then - 1 else 0)"
    from False Cons.prems(1) have d1: "1 \<le> d'" by (auto simp add: d'_def)
    from scan_block_step [OF False] Cons.prems(2)
    have s: "scan_block xs d' (Suc i) = Some j" by (simp add: d'_def)
    from scan_block_bounds [OF s] have ij: "Suc i \<le> j" by simp
    from Cons.IH [OF d1 s] have
      a: "d' + brace_depth (take (j - Suc i + 1) xs) = 0" and
      b: "\<forall>n \<le> j - Suc i. 0 < d' + brace_depth (take n xs)" by simp_all
    from ij have e: "j - i + 1 = Suc (j - Suc i + 1)" by simp
    have "d + brace_depth (take (j - i + 1) (x # xs)) = 0"
      unfolding e using a by (simp add: d'_def)
    moreover have "\<forall>n \<le> j - i. 0 < d + brace_depth (take n (x # xs))"
    proof (intro allI impI)
      fix n assume n: "n \<le> j - i"
      show "0 < d + brace_depth (take n (x # xs))"
      proof (cases n)
        case 0
        with Cons.prems(1) show ?thesis by simp
      next
        case (Suc m)
        with n ij have "m \<le> j - Suc i" by simp
        with b have "0 < d' + brace_depth (take m xs)" by simp
        with Suc show ?thesis by (simp add: d'_def)
      qed
    qed
    ultimately show ?thesis by simp
  qed
qed

lemma scan_block_complete:
  assumes "1 \<le> d" and "n \<le> length xs" and "d + brace_depth (take n xs) = 0"
  shows "\<exists>j. scan_block xs d i = Some j"
  using assms
proof (induction xs arbitrary: d i n)
  case Nil
  then show ?case by simp
next
  case (Cons x xs)
  show ?case
  proof (cases "x = CHR ''}'' \<and> d = 1")
    case True
    then show ?thesis by simp
  next
    case False
    define d' where "d' = d + (if x = CHR ''{'' then 1 else if x = CHR ''}'' then - 1 else 0)"
    from False Cons.prems(1) have d1: "1 \<le> d'" by (auto simp add: d'_def)
    from Cons.prems(1,3) obtain m where m: "n = Suc m" by (cases n) auto
    with Cons.prems(2,3) have "m \<le> length xs" "d' + brace_depth (take m xs) = 0"
      by (simp_all add: d'_def)
    from Cons.IH [OF d1 this] obtain j where "scan_block xs d' (Suc i) = Some j" by blast
    with scan_block_step [OF False] show ?thesis by (simp add: d'_def)
  qed
qed

lemma str_find_brace:
  "str_find (CHR ''{'') s = None \<Longrightarrow> from_first_brace s = []"
  "str_find (CHR ''{'') s = Some start \<Longrightarrow>
     \<exists>rest. drop start s = CHR ''{'' # rest \<and> from_first_brace s = CHR ''{'' # rest"
proof (induction s arbitrary: start)
  case Nil
  { case 1 then show ?case by (simp add: from_first_brace_def) }
  { case 2 then show ?case by simp }
next
  case (Cons a s)
  { case 1 with Cons(1) show ?case
      by (auto simp add: from_first_brace_def split: if_splits option.splits) }
  { case 2 with Cons(2) show ?case
      by (auto simp add: from_first_brace_def split: if_splits option.splits) }
qed

text \<open>
  The extractor against the words of the specification: the block it returns starts at
  the first opening brace and ends where the depth first returns to zero, and it
  returns nothing exactly when the depth never returns to zero.
\<close>

lemma extract_first_json_block_Some:
  assumes "extract_first_json_block s = Some b"
  shows "\<exists>n. 0 < n \<and> n \<le> length (from_first_brace s) \<and> b = take n (from_first_brace s) \<and>
    brace_depth b = 0 \<and> (\<forall>m. 0 < m \<and> m < n \<longrightarrow> brace_depth (take m (from_first_brace s)) \<noteq> 0)"
proof -
  from assms obtain start i where
    f: "str_find (CHR ''{'') s = Some start" and
    sc: "scan_block (drop start s) 0 start = Some i" and
    b: "b = take (i + 1 - start) (drop start s)"
    by (auto simp add: extract_first_json_block_def split: option.splits if_splits)
  from str_find_brace(2) [OF f] obtain rest where
    d: "drop start s = CHR ''{'' # rest" and ffb: "from_first_brace s = CHR ''{'' # rest" by blast
  from sc d have s1: "scan_block rest 1 (Suc start) = Some i" by simp
  from scan_block_bounds [OF s1] have r: "Suc start \<le> i" "i < Suc start + length rest" by simp_all
  from scan_block_sound [OF _ s1] have
    z: "1 + brace_depth (take (i - Suc start + 1) rest) = 0" and
    p: "\<forall>n \<le> i - Suc start. 0 < 1 + brace_depth (take n rest)" by simp_all
  define n where "n = i + 1 - start"
  from r have n: "n = Suc (i - Suc start + 1)" by (simp add: n_def)
  have "brace_depth (take n (CHR ''{'' # rest)) = 0" unfolding n using z by simp
  moreover have "\<forall>m. 0 < m \<and> m < n \<longrightarrow> brace_depth (take m (CHR ''{'' # rest)) \<noteq> 0"
  proof (intro allI impI)
    fix m assume "0 < m \<and> m < n"
    then obtain k where k: "m = Suc k" "k \<le> i - Suc start" using n by (cases m) auto
    with p have "0 < 1 + brace_depth (take k rest)" by simp
    with k show "brace_depth (take m (CHR ''{'' # rest)) \<noteq> 0" by simp
  qed
  moreover have "0 < n" "n \<le> length (CHR ''{'' # rest)" using r n by simp_all
  ultimately show ?thesis using b d ffb
    by (intro exI [of _ n]) (simp add: n_def)
qed

lemma extract_first_json_block_None:
  assumes "extract_first_json_block s = None" and "0 < n" and "n \<le> length (from_first_brace s)"
  shows "brace_depth (take n (from_first_brace s)) \<noteq> 0"
proof
  assume z: "brace_depth (take n (from_first_brace s)) = 0"
  from assms(2,3) have ne: "from_first_brace s \<noteq> []" by auto
  then have "s \<noteq> []" by (auto simp add: from_first_brace_def)
  from ne str_find_brace(1) [of s] obtain start where f: "str_find (CHR ''{'') s = Some start"
    by (cases "str_find (CHR ''{'') s") auto
  from str_find_brace(2) [OF f] obtain rest where
    d: "drop start s = CHR ''{'' # rest" and ffb: "from_first_brace s = CHR ''{'' # rest" by blast
  from assms(2) obtain k where k: "n = Suc k" by (cases n) auto
  with z ffb assms(3) have "k \<le> length rest" "1 + brace_depth (take k rest) = 0" by simp_all
  from scan_block_complete [OF _ this] obtain j where "scan_block rest 1 (Suc start) = Some j"
    by auto
  with f d \<open>s \<noteq> []\<close> assms(1) show False by (simp add: extract_first_json_block_def)
qed







section \<open>Defaults and normalisation of decoded records\<close>





end
